theory Spec2Isabelle
  imports Complex_Main
begin

section \<open>Python values used by CipherSim\<close>

text \<open>
  The exceptions that the modelled functions can raise. \<open>ValueError\<close> is what
  \<^verbatim>\<open>itertools.product\<close> raises for a negative \<^verbatim>\<open>repeat\<close> and what \<^verbatim>\<open>math.log2\<close> raises
  outside its domain; \<open>OverflowError\<close> and \<open>MemoryError\<close> are what \<^verbatim>\<open>itertools.product\<close>
  raises for a \<^verbatim>\<open>repeat\<close> that is too large; \<open>ZeroDivisionError\<close> comes from \<^verbatim>\<open>%\<close> and \<^verbatim>\<open>/\<close>,
  and \<open>OverflowError\<close> also from the true division of two integers whose quotient is too
  large for a float. The last two stand for the exceptions of the argon2 and bcrypt
  libraries.
\<close>

datatype error =
    ValueError
  | ZeroDivisionError
  | OverflowError
  | MemoryError
  | VerifyMismatchError
  | InvalidHashError

text \<open>
  A Python string is the list of its code points. \<open>py\<close> turns a literal of ASCII
  characters into that list.
\<close>

type_synonym pystr = "nat list"

definition code_point :: "char \<Rightarrow> nat" where
  "code_point c = of_char c"

definition py :: "string \<Rightarrow> pystr" where
  "py s = map code_point s"

text \<open>The constants of Python's \<^verbatim>\<open>string\<close> module.\<close>

definition ascii_lowercase :: pystr where
  "ascii_lowercase = py ''abcdefghijklmnopqrstuvwxyz''"

definition ascii_uppercase :: pystr where
  "ascii_uppercase = py ''ABCDEFGHIJKLMNOPQRSTUVWXYZ''"

definition ascii_letters :: pystr where
  "ascii_letters = ascii_lowercase @ ascii_uppercase"

definition digits :: pystr where
  "digits = py ''0123456789''"

definition punctuation :: pystr where
  "punctuation =
     py ''!'' @ [0x22] @ py ''#$%&'' @ [0x27] @ py ''()*+,-./:;<=>?@['' @ [0x5C] @
     py '']^_'' @ [0x60] @ py ''{|}~''"

text \<open>
  What the code takes from the interpreter and the machine it runs on, as parameters of the
  model:
  \<^item> \<open>files\<close>: each path that exists, with the lines a loop over the open file yields (a
    file that exists and cannot be read is outside the model);
  \<^item> the methods \<^verbatim>\<open>str.strip\<close>, \<^verbatim>\<open>str.upper\<close>, \<^verbatim>\<open>str.lower\<close> and \<^verbatim>\<open>str.capitalize\<close>, which
    follow the Unicode character database;
  \<^item> \<open>max_repeat\<close>: the largest \<^verbatim>\<open>repeat\<close> for which \<^verbatim>\<open>itertools.product\<close> finds the memory
    for its pools.
\<close>

record runtime =
  files :: "(pystr \<times> pystr list) list"
  str_strip :: "pystr \<Rightarrow> pystr"
  str_upper :: "pystr \<Rightarrow> pystr"
  str_lower :: "pystr \<Rightarrow> pystr"
  str_capitalize :: "pystr \<Rightarrow> pystr"
  max_repeat :: int

text \<open>
  \<^verbatim>\<open>itertools.product(pool, repeat=n)\<close> on one pool, in 64-bit CPython. An \<open>n\<close> that does
  not fit the C type \<^verbatim>\<open>Py_ssize_t\<close> (below \<open>-2^63\<close>, or from \<open>2^63\<close> on) is an
  \<open>OverflowError\<close> of the argument conversion; any other negative \<open>n\<close> is refused with
  \<open>ValueError\<close>; from \<open>2^60\<close> on the size of the index array overflows, an
  \<open>OverflowError\<close> again; below that the index array and the pools are allocated, which
  fails beyond \<open>max_repeat\<close>. Otherwise the tuples come in the order of \<open>product_lists\<close>:
  the leftmost position varies slowest. \<open>repeat_limit\<close> is the largest \<open>n\<close> that is served.
\<close>

definition product_repeat :: "runtime \<Rightarrow> 'a list \<Rightarrow> int \<Rightarrow> error + 'a list list" where
  "product_repeat rt pool n =
     (if n < - (2 ^ 63) then Inl OverflowError
      else if n < 0 then Inl ValueError
      else if 2 ^ 60 \<le> n then Inl OverflowError
      else if max_repeat rt < n then Inl MemoryError
      else Inr (product_lists (replicate (nat n) pool)))"

definition repeat_limit :: "runtime \<Rightarrow> int" where
  "repeat_limit rt = min (max_repeat rt) (2 ^ 60 - 1)"

text \<open>
  A runtime for the examples: no files, memory for a million pools, and string methods
  that return their argument (the examples are of modes that call none of them).
\<close>

definition example_runtime :: runtime where
  "example_runtime =
     \<lparr>files = [], str_strip = (\<lambda>s. s), str_upper = (\<lambda>s. s), str_lower = (\<lambda>s. s),
      str_capitalize = (\<lambda>s. s), max_repeat = 1000000\<rparr>"

text \<open>
  Floats. A float is modelled by the real number it stands for. The doubles around a real
  \<open>x\<close> are the multiples of \<open>ulp x\<close>: 53 bits from the leading one, and multiples of
  \<open>2^-1074\<close> below \<open>2^-1022\<close>. An arithmetic operation gives the double nearest to the exact
  result, ties to the even multiple: \<open>round_float\<close>. From \<open>2^1024 - 2^970\<close> on (the largest
  float plus half a unit in its last place) there is no such double.
\<close>

type_synonym pyfloat = real

definition round_half_even :: "real \<Rightarrow> int" where
  "round_half_even x =
     (let f = \<lfloor>x\<rfloor>; r = x - of_int f
      in if r < 1 / 2 then f else if 1 / 2 < r then f + 1 else if even f then f else f + 1)"

definition ulp :: "real \<Rightarrow> real" where
  "ulp x = 2 powi (max (- 1022) \<lfloor>log 2 \<bar>x\<bar>\<rfloor> - 52)"

definition round_float :: "real \<Rightarrow> pyfloat" where
  "round_float x = (if x = 0 then 0 else of_int (round_half_even (x / ulp x)) * ulp x)"

definition float_overflow :: real where
  "float_overflow = 2 ^ 1024 - 2 ^ 970"

text \<open>
  The true division \<^verbatim>\<open>a / b\<close> of an integer by an integer that is not negative (the code
  divides by the rates of its tables): the double nearest to the quotient, or
  \<open>OverflowError\<close> when there is none.
\<close>

definition int_true_div :: "int \<Rightarrow> nat \<Rightarrow> error + pyfloat" where
  "int_true_div a b =
     (if b = 0 then Inl ZeroDivisionError
      else if float_overflow \<le> \<bar>of_int a / of_nat b\<bar> then Inl OverflowError
      else Inr (round_float (of_int a / of_nat b)))"

text \<open>
  \<^verbatim>\<open>int(x)\<close> on a float truncates towards zero. (The analyzer's arithmetic on the entropy is
  kept exact: \<^verbatim>\<open>math.log2\<close> is the real logarithm, whose rounding no standard fixes.)
\<close>

definition py_int :: "pyfloat \<Rightarrow> int" where
  "py_int x = (if 0 \<le> x then \<lfloor>x\<rfloor> else \<lceil>x\<rceil>)"

text \<open>
  The format specifications \<^verbatim>\<open>:.2f\<close> and \<^verbatim>\<open>:.0f\<close>: the exact value of the float is rounded to
  the given number of decimals, ties to even, and printed with exactly that many decimals.
\<close>

definition digit_char :: "nat \<Rightarrow> nat" where
  "digit_char d = digits ! d"

fun show_nat :: "nat \<Rightarrow> pystr" where
  "show_nat n = (if n < 10 then [digit_char n] else show_nat (n div 10) @ [digit_char (n mod 10)])"

declare show_nat.simps [simp del]

definition fmt_fixed :: "nat \<Rightarrow> pyfloat \<Rightarrow> pystr" where
  "fmt_fixed d x =
     (let m = nat (round_half_even (\<bar>x\<bar> * 10 ^ d));
          ip = show_nat (m div 10 ^ d);
          fp = show_nat (m mod 10 ^ d)
      in (if x < 0 then py ''-'' else []) @ ip @
         (if d = 0 then [] else py ''.'' @ replicate (d - length fp) (code_point CHR ''0'') @ fp))"

section \<open>core/hash\_engine.py\<close>

datatype HashAlgorithm = ARGON2ID | SCRYPT | PBKDF2_SHA256 | PBKDF2_SHA512 | BCRYPT

record CrackEstimate =
  seconds :: pyfloat
  human_readable :: pystr
  hashes_required :: int
  algorithm :: HashAlgorithm

text \<open>The class attribute \<^verbatim>\<open>HashEngine.GPU_PERFORMANCE\<close>; the dictionary has all five keys.\<close>

fun GPU_PERFORMANCE :: "HashAlgorithm \<Rightarrow> nat" where
  "GPU_PERFORMANCE ARGON2ID = 50000"
| "GPU_PERFORMANCE SCRYPT = 100000"
| "GPU_PERFORMANCE PBKDF2_SHA256 = 10000000"
| "GPU_PERFORMANCE PBKDF2_SHA512 = 5000000"
| "GPU_PERFORMANCE BCRYPT = 500000"

text \<open>
  The two library calls of \<^verbatim>\<open>verify_password\<close> are parameters of the model:
  \<^verbatim>\<open>argon2.PasswordHasher.verify(hash, password)\<close> returns or raises,
  \<^verbatim>\<open>bcrypt.checkpw(password, hash)\<close> returns a boolean or raises.
\<close>

record crypto_lib =
  argon2_verify :: "pystr \<Rightarrow> pystr \<Rightarrow> error + unit"
  bcrypt_checkpw :: "pystr \<Rightarrow> pystr \<Rightarrow> error + bool"

text \<open>
  \<^verbatim>\<open>HashEngine.verify_password\<close>. The \<^verbatim>\<open>try\<close> block catches every exception of the library
  calls; the last branch serves scrypt and both PBKDF2 variants.
\<close>

definition verify_password :: "crypto_lib \<Rightarrow> pystr \<Rightarrow> pystr \<Rightarrow> HashAlgorithm \<Rightarrow> bool" where
  "verify_password lib password hash_value algo =
     (if algo = ARGON2ID then
        (case argon2_verify lib hash_value password of Inl e \<Rightarrow> False | Inr u \<Rightarrow> True)
      else if algo = BCRYPT then
        (case bcrypt_checkpw lib password hash_value of Inl e \<Rightarrow> False | Inr b \<Rightarrow> b)
      else True)"

text \<open>
  \<^verbatim>\<open>HashEngine._format_time\<close>. The product and the quotients are float operations; the
  comparisons are exact.
\<close>

definition format_time :: "pyfloat \<Rightarrow> pystr" where
  "format_time secs =
     (if secs < 1 then fmt_fixed 2 (round_float (secs * 1000)) @ py '' milliseconds''
      else if secs < 60 then fmt_fixed 2 secs @ py '' seconds''
      else if secs < 3600 then fmt_fixed 2 (round_float (secs / 60)) @ py '' minutes''
      else if secs < 86400 then fmt_fixed 2 (round_float (secs / 3600)) @ py '' hours''
      else if secs < 31536000 then fmt_fixed 2 (round_float (secs / 86400)) @ py '' days''
      else if secs < 31536000 * 100 then
        fmt_fixed 2 (round_float (secs / 31536000)) @ py '' years''
      else if secs < 31536000 * 1000 then
        fmt_fixed 0 (round_float (secs / 31536000)) @ py '' years''
      else if secs < 31536000 * 1000000 then
        fmt_fixed 0 (round_float (round_float (secs / 31536000) / 1000)) @ py '' thousand years''
      else if secs < 31536000 * 1000000000 then
        fmt_fixed 0 (round_float (round_float (secs / 31536000) / 1000000)) @ py '' million years''
      else
        fmt_fixed 0 (round_float (round_float (secs / 31536000) / 1000000000)) @
        py '' billion years'')"

text \<open>
  \<^verbatim>\<open>HashEngine.estimate_crack_time\<close>. \<open>hashes_per_second\<close> is the local variable of that
  name. The length is a natural number: the analyzer passes \<^verbatim>\<open>len(password)\<close>, and with a
  negative exponent Python's \<^verbatim>\<open>**\<close> leaves the integers, which this model does not cover.
\<close>

definition hashes_per_second :: "HashAlgorithm \<Rightarrow> bool \<Rightarrow> nat" where
  "hashes_per_second algo use_gpu = (if use_gpu then GPU_PERFORMANCE algo else 1000)"

definition estimate_crack_time :: "nat \<Rightarrow> int \<Rightarrow> HashAlgorithm \<Rightarrow> bool \<Rightarrow> error + CrackEstimate" where
  "estimate_crack_time password_length charset_size algo use_gpu =
     (let total_combinations = charset_size ^ password_length;
          avg_combinations = total_combinations div 2
      in case int_true_div avg_combinations (hashes_per_second algo use_gpu) of
           Inl e \<Rightarrow> Inl e
         | Inr secs \<Rightarrow>
             Inr \<lparr>seconds = secs, human_readable = format_time secs,
                  hashes_required = avg_combinations, algorithm = algo\<rparr>)"

section \<open>core/attack\_simulator.py\<close>

datatype AttackMode = DICTIONARY | BRUTE_FORCE | HYBRID | MASK | CREDENTIAL_STUFFING

text \<open>The dataclass \<^verbatim>\<open>AttackConfig\<close>; no field is validated when it is built.\<close>

record AttackConfig =
  mode :: AttackMode
  target_hash :: pystr
  algorithm :: HashAlgorithm
  max_attempts :: int
  speed_limit :: int
  charset :: pystr
  min_length :: int
  max_length :: int
  wordlist_path :: "pystr option"
  mask :: "pystr option"

text \<open>An \<^verbatim>\<open>AttackConfig\<close> built with the three required fields, the others at their defaults.\<close>

definition default_config :: "AttackMode \<Rightarrow> pystr \<Rightarrow> HashAlgorithm \<Rightarrow> AttackConfig" where
  "default_config m h a =
     \<lparr>mode = m, target_hash = h, algorithm = a, max_attempts = 1000000, speed_limit = 10000,
      charset = ascii_lowercase @ digits, min_length = 1, max_length = 8,
      wordlist_path = None, mask = None\<rparr>"

text \<open>
  The dataclass \<^verbatim>\<open>AttackResult\<close>, without \<^verbatim>\<open>time_seconds\<close>: the wall clock is not
  modelled.
\<close>

record AttackResult =
  success :: bool
  password_found :: "pystr option"
  attempts :: int
  mode :: AttackMode
  stopped_by_limit :: bool

text \<open>
  A generator is modelled by what it does when it is run to its end: the candidates it
  yields, in order, and the exception that ends it, if one does. A consumer that stops
  early never meets the exception.
\<close>

type_synonym candidates = "pystr list \<times> error option"

definition default_wordlist :: "pystr list" where
  "default_wordlist =
     map py
       [''password'', ''123456'', ''12345678'', ''qwerty'', ''abc123'',
        ''password123'', ''admin'', ''letmein'', ''welcome'', ''monkey'',
        ''dragon'', ''master'', ''sunshine'', ''princess'', ''football'',
        ''iloveyou'', ''shadow'', ''michael'', ''superman'', ''trustno1'']"

definition dictionary_generator :: "runtime \<Rightarrow> AttackConfig \<Rightarrow> pystr list" where
  "dictionary_generator rt config =
     (case wordlist_path config of
        None \<Rightarrow> default_wordlist
      | Some path \<Rightarrow>
          (case map_of (files rt) path of
             None \<Rightarrow> default_wordlist
           | Some lines \<Rightarrow> filter (\<lambda>password. password \<noteq> []) (map (str_strip rt) lines)))"

text \<open>
  \<^verbatim>\<open>_brute_force_generator\<close>. \<^verbatim>\<open>range(min_length, max_length + 1)\<close> is the list
  \<open>[min_length..max_length]\<close>. The product for a length is made when the generator reaches
  that length, after the candidates of the lengths before it. Joining a tuple of
  characters gives the string of those characters.
\<close>

fun brute_force_lengths :: "runtime \<Rightarrow> pystr \<Rightarrow> int list \<Rightarrow> candidates" where
  "brute_force_lengths rt cs [] = ([], None)"
| "brute_force_lengths rt cs (n # ns) =
     (case product_repeat rt cs n of
        Inl e \<Rightarrow> ([], Some e)
      | Inr combos \<Rightarrow>
          (case brute_force_lengths rt cs ns of (ys, e) \<Rightarrow> (combos @ ys, e)))"

definition brute_force_generator :: "runtime \<Rightarrow> AttackConfig \<Rightarrow> candidates" where
  "brute_force_generator rt config =
     brute_force_lengths rt (charset config) [min_length config..max_length config]"

text \<open>
  The order the specification asks of the brute-force generator, in its words: the strings
  of length \<open>n\<close> over the charset in lexicographic product order, the leftmost position
  varying slowest. \<open>before cs\<close> orders the characters as the charset lists them.
\<close>

fun lex_words :: "'a list \<Rightarrow> nat \<Rightarrow> 'a list list" where
  "lex_words cs 0 = [[]]"
| "lex_words cs (Suc n) = concat (map (\<lambda>c. map ((#) c) (lex_words cs n)) cs)"

definition before :: "'a list \<Rightarrow> ('a \<times> 'a) set" where
  "before cs = {(a, b). \<exists>i j. i < j \<and> j < length cs \<and> cs ! i = a \<and> cs ! j = b}"

text \<open>
  \<^verbatim>\<open>_hybrid_generator\<close>: the candidates made from one word, and the generator. In the leet
  substitution \<^verbatim>\<open>c\<close> is a string of one character, and so are the keys and the values of
  \<^verbatim>\<open>leet_map\<close>.
\<close>

definition leet_map :: "(pystr \<times> pystr) list" where
  "leet_map = [(py ''a'', py ''4''), (py ''e'', py ''3''), (py ''i'', py ''1''),
               (py ''o'', py ''0''), (py ''s'', py ''5''), (py ''t'', py ''7'')]"

definition hybrid_mutations :: "runtime \<Rightarrow> pystr \<Rightarrow> pystr list" where
  "hybrid_mutations rt word =
     [word, str_capitalize rt word, str_upper rt word, str_lower rt word] @
     concat (map (\<lambda>num. [word @ num, str_capitalize rt word @ num])
                 (map py [''1'', ''123'', ''2024'', ''2025'', ''!''])) @
     (let leet_word =
            concat (map (\<lambda>c. case map_of leet_map (str_lower rt [c]) of
                                Some l \<Rightarrow> l
                              | None \<Rightarrow> [c]) word)
      in if leet_word \<noteq> word then [leet_word] else [])"

definition hybrid_generator :: "runtime \<Rightarrow> AttackConfig \<Rightarrow> pystr list" where
  "hybrid_generator rt config =
     concat (map (hybrid_mutations rt) (dictionary_generator rt config))"

text \<open>
  \<^verbatim>\<open>_mask_generator\<close>. \<open>placeholder_charset\<close> is the \<^verbatim>\<open>if\<close>/\<^verbatim>\<open>elif\<close> chain on the character
  after a \<^verbatim>\<open>?\<close>: what it appends to \<^verbatim>\<open>charsets\<close>. \<open>parse_mask\<close> is the \<^verbatim>\<open>while\<close> loop, on
  the part of the mask from index \<^verbatim>\<open>i\<close> on. The product has one pool for each entry of
  \<^verbatim>\<open>charsets\<close> and no \<^verbatim>\<open>repeat\<close>: there are no more pools than the mask has characters,
  and that there is memory for them is taken for granted, as it is for the mask.
\<close>

definition placeholder_charset :: "nat \<Rightarrow> pystr list" where
  "placeholder_charset placeholder =
     (if placeholder = code_point CHR ''l'' then [ascii_lowercase]
      else if placeholder = code_point CHR ''u'' then [ascii_uppercase]
      else if placeholder = code_point CHR ''d'' then [digits]
      else if placeholder = code_point CHR ''s'' then [py ''!@#$%^&*()_+-=[]{}|;:,.<>?'']
      else if placeholder = code_point CHR ''a'' then [ascii_letters @ digits @ punctuation]
      else [])"

fun parse_mask :: "pystr \<Rightarrow> pystr list" where
  "parse_mask [] = []"
| "parse_mask [c] = [[c]]"
| "parse_mask (c # p # rest) =
     (if c = code_point CHR ''?'' then placeholder_charset p @ parse_mask rest
      else [c] # parse_mask (p # rest))"

definition mask_generator :: "runtime \<Rightarrow> AttackConfig \<Rightarrow> candidates" where
  "mask_generator rt config =
     (case mask config of
        None \<Rightarrow> brute_force_generator rt config
      | Some m \<Rightarrow>
          if m = [] then brute_force_generator rt config
          else (product_lists (parse_mask m), None))"

definition demo_credentials :: "(pystr \<times> pystr) list" where
  "demo_credentials =
     [(py ''user1@example.com'', py ''Password123!''),
      (py ''testuser@demo.com'', py ''Welcome2024''),
      (py ''admin@test.local'', py ''Admin@123''),
      (py ''demo@email.com'', py ''Summer2024!'')]"

definition credential_stuffing_generator :: "AttackConfig \<Rightarrow> pystr list" where
  "credential_stuffing_generator config = map snd demo_credentials"

text \<open>
  The simulator object: its one mutable attribute \<^verbatim>\<open>_stop_requested\<close>. \<open>new_simulator\<close> is
  \<^verbatim>\<open>__init__\<close>.
\<close>

record AttackSimulator =
  stop_requested :: bool

definition new_simulator :: AttackSimulator where
  "new_simulator = \<lparr>stop_requested = False\<rparr>"

definition stop :: "AttackSimulator \<Rightarrow> AttackSimulator" where
  "stop self = self\<lparr>stop_requested := True\<rparr>"

text \<open>
  The dispatch on the mode at the head of \<^verbatim>\<open>simulate_attack\<close>. Its last branch, which
  raises \<open>ValueError\<close> for an unsupported mode, is reached by no value of the enumeration.
\<close>

definition select_candidates :: "runtime \<Rightarrow> AttackConfig \<Rightarrow> candidates" where
  "select_candidates rt config =
     (case AttackConfig.mode config of
        DICTIONARY \<Rightarrow> (dictionary_generator rt config, None)
      | BRUTE_FORCE \<Rightarrow> brute_force_generator rt config
      | HYBRID \<Rightarrow> (hybrid_generator rt config, None)
      | MASK \<Rightarrow> mask_generator rt config
      | CREDENTIAL_STUFFING \<Rightarrow> (credential_stuffing_generator config, None))"

text \<open>
  The rate limit at the head of the loop body: whether the loop sleeps, or the exception
  of \<^verbatim>\<open>attempts % config.speed_limit\<close>. The \<^verbatim>\<open>and\<close> evaluates the remainder only when
  \<^verbatim>\<open>attempts > 0\<close>.
\<close>

definition throttle :: "int \<Rightarrow> int \<Rightarrow> error + bool" where
  "throttle n limit =
     (if 0 < n then (if limit = 0 then Inl ZeroDivisionError else Inr (n mod limit = 0))
      else Inr False)"

text \<open>
  The \<^verbatim>\<open>for\<close> loop of \<^verbatim>\<open>simulate_attack\<close> over the candidates that are left, from the
  current value of \<^verbatim>\<open>attempts\<close>. It returns the exception that leaves the loop, or
  \<^verbatim>\<open>attempts\<close>, \<^verbatim>\<open>found\<close> and \<^verbatim>\<open>stopped_by_limit\<close> after it; and, beside that, the number of
  candidates it has drawn from the generator (\<open>drawn\<close> counts them; it is not a variable of
  the source).
\<close>

fun attack_loop ::
  "bool \<Rightarrow> int \<Rightarrow> int \<Rightarrow> pystr \<Rightarrow> error option \<Rightarrow> pystr list \<Rightarrow> int \<Rightarrow> nat
     \<Rightarrow> (error + int \<times> bool \<times> bool) \<times> nat" where
  "attack_loop stopping limit cap target pending [] n drawn =
     (case pending of None \<Rightarrow> (Inr (n, False, False), drawn) | Some e \<Rightarrow> (Inl e, drawn))"
| "attack_loop stopping limit cap target pending (candidate # rest) n drawn =
     (case throttle n limit of
        Inl e \<Rightarrow> (Inl e, Suc drawn)
      | Inr slept \<Rightarrow>
          if candidate = target then (Inr (n, True, False), Suc drawn)
          else if cap \<le> n + 1 then (Inr (n + 1, False, True), Suc drawn)
          else if stopping then (Inr (n + 1, False, False), Suc drawn)
          else attack_loop stopping limit cap target pending rest (n + 1) (Suc drawn))"

definition run_attack ::
  "runtime \<Rightarrow> AttackSimulator \<Rightarrow> AttackConfig \<Rightarrow> pystr \<Rightarrow> (error + int \<times> bool \<times> bool) \<times> nat" where
  "run_attack rt self config target_password =
     (case select_candidates rt config of
        (cands, pending) \<Rightarrow>
          attack_loop (stop_requested self) (speed_limit config) (max_attempts config)
            target_password pending cands 0 0)"

text \<open>
  \<^verbatim>\<open>simulate_attack\<close>: the simulator after the call, which the call never changes, and the
  result or the exception.
\<close>

definition simulate_attack ::
  "runtime \<Rightarrow> AttackSimulator \<Rightarrow> AttackConfig \<Rightarrow> pystr \<Rightarrow> AttackSimulator \<times> (error + AttackResult)" where
  "simulate_attack rt self config target_password =
     (self,
      case fst (run_attack rt self config target_password) of
        Inl e \<Rightarrow> Inl e
      | Inr (n, found, limited) \<Rightarrow>
          Inr \<lparr>success = found,
               password_found = (if found then Some target_password else None),
               attempts = n, mode = AttackConfig.mode config, stopped_by_limit = limited\<rparr>)"

text \<open>The number of candidates a call of \<^verbatim>\<open>simulate_attack\<close> draws from its generator.\<close>

definition candidates_examined :: "runtime \<Rightarrow> AttackSimulator \<Rightarrow> AttackConfig \<Rightarrow> pystr \<Rightarrow> nat" where
  "candidates_examined rt self config target_password =
     snd (run_attack rt self config target_password)"

text \<open>A client of one simulator object: the calls it makes, in order.\<close>

datatype simulator_call = Stop | Simulate AttackConfig pystr

fun run_calls ::
  "runtime \<Rightarrow> AttackSimulator \<Rightarrow> simulator_call list \<Rightarrow> AttackSimulator" where
  "run_calls rt self [] = self"
| "run_calls rt self (Stop # calls) = run_calls rt (stop self) calls"
| "run_calls rt self (Simulate config target # calls) =
     run_calls rt (fst (simulate_attack rt self config target)) calls"

text \<open>\<^verbatim>\<open>GPUSimulator.GPU_TIERS\<close> and \<^verbatim>\<open>GPUSimulator.estimate_performance\<close>.\<close>

definition GPU_TIERS :: "(pystr \<times> (HashAlgorithm \<times> nat) list) list" where
  "GPU_TIERS =
     [(py ''RTX_4090'',
         [(ARGON2ID, 50000), (SCRYPT, 100000), (PBKDF2_SHA256, 10000000), (BCRYPT, 500000)]),
      (py ''RTX_3080'',
         [(ARGON2ID, 30000), (SCRYPT, 60000), (PBKDF2_SHA256, 6000000), (BCRYPT, 300000)]),
      (py ''CPU_ONLY'',
         [(ARGON2ID, 1000), (SCRYPT, 2000), (PBKDF2_SHA256, 100000), (BCRYPT, 10000)])]"

definition estimate_performance :: "HashAlgorithm \<Rightarrow> pystr \<Rightarrow> nat" where
  "estimate_performance algo gpu_tier =
     (let cpu_only = (case map_of GPU_TIERS (py ''CPU_ONLY'') of Some t \<Rightarrow> t | None \<Rightarrow> []);
          tier = (case map_of GPU_TIERS gpu_tier of Some t \<Rightarrow> t | None \<Rightarrow> cpu_only)
      in case map_of tier algo of Some rate \<Rightarrow> rate | None \<Rightarrow> 1000)"

section \<open>modules/password\_analyzer.py\<close>

record PatternMatch =
  pattern_type :: pystr
  description :: pystr
  severity :: pystr
  position :: "int \<times> int"

text \<open>\<^verbatim>\<open>_calculate_charset_size\<close>.\<close>

definition calculate_charset_size :: "pystr \<Rightarrow> int" where
  "calculate_charset_size password =
     (let has_lowercase = (\<exists>c \<in> set password. c \<in> set ascii_lowercase);
          has_uppercase = (\<exists>c \<in> set password. c \<in> set ascii_uppercase);
          has_digits = (\<exists>c \<in> set password. c \<in> set digits);
          has_special = (\<exists>c \<in> set password. c \<in> set punctuation);
          has_space = (code_point CHR '' '' \<in> set password);
          size = (if has_lowercase then 26 else 0) + (if has_uppercase then 26 else 0) +
                 (if has_digits then 10 else 0) + (if has_special then 32 else 0) +
                 (if has_space then 1 else 0)
      in if 0 < size then size else 1)"

text \<open>
  \<^verbatim>\<open>_calculate_entropy\<close>. \<^verbatim>\<open>math.log2\<close> is the logarithm to base 2 and raises \<open>ValueError\<close>
  for an argument that is not positive.
\<close>

definition calculate_entropy :: "pystr \<Rightarrow> int \<Rightarrow> error + pyfloat" where
  "calculate_entropy password charset_size =
     (if length password = 0 \<or> charset_size = 0 then Inr 0
      else if charset_size ^ length password \<le> 0 then Inl ValueError
      else Inr (log 2 (of_int (charset_size ^ length password))))"

text \<open>
  The first lines of \<^verbatim>\<open>analyze\<close>: the value it stores in the field \<^verbatim>\<open>entropy_bits\<close> of
  the analysis of a password.
\<close>

definition entropy_bits :: "pystr \<Rightarrow> error + pyfloat" where
  "entropy_bits password = calculate_entropy password (calculate_charset_size password)"

text \<open>
  \<^verbatim>\<open>_calculate_score\<close>. \<open>deduct\<close> is the body of the loop over the patterns: the score after
  one pattern.
\<close>

definition deduct :: "PatternMatch \<Rightarrow> int \<Rightarrow> int" where
  "deduct pattern score =
     (if severity pattern = py ''high'' then score - 25
      else if severity pattern = py ''medium'' then score - 15
      else if severity pattern = py ''low'' then score - 5
      else score)"

definition calculate_score :: "pystr \<Rightarrow> pyfloat \<Rightarrow> PatternMatch list \<Rightarrow> int" where
  "calculate_score password entropy patterns =
     (let score = min 100 (py_int (entropy / 128 * 100));
          score = fold deduct patterns score;
          score = (if 16 \<le> length password then score + 10
                   else if 12 \<le> length password then score + 5
                   else score)
      in max 0 (min 100 score))"

section \<open>Hash engine: verification and crack-time estimates\<close>

text \<open>
  C1. For scrypt and both PBKDF2 variants \<^verbatim>\<open>verify_password\<close> is to accept a password exactly
  when the hash derived from it matches the stored digest, so that a wrong password gives
  \<open>False\<close>. The code does not derive anything on that branch: whatever the password, the
  stored hash and the libraries are, these three algorithms give \<open>True\<close>.
\<close>

theorem verify_password_accepts_any_password:
  "verify_password lib (py ''wrong password'') stored PBKDF2_SHA256 = True \<and>
   verify_password lib (py ''wrong password'') stored PBKDF2_SHA512 = True \<and>
   verify_password lib (py ''wrong password'') stored SCRYPT = True"
  by (simp add: verify_password_def)

text \<open>What the claim has right: no exception of a library call leaves \<^verbatim>\<open>verify_password\<close>.\<close>

lemma verify_password_catches:
  "argon2_verify lib h p = Inl e \<Longrightarrow> verify_password lib p h ARGON2ID = False"
  "bcrypt_checkpw lib p h = Inl e \<Longrightarrow> verify_password lib p h BCRYPT = False"
  by (simp_all add: verify_password_def)

text \<open>Rounding to the nearest double, for a real whose binary exponent is known.\<close>

lemma ulp_eq:
  assumes "2 powi e \<le> \<bar>x\<bar>" "\<bar>x\<bar> < 2 powi (e + 1)" "- 1022 \<le> e"
  shows "ulp x = 2 powi (e - 52)"
proof -
  have pos: "0 < \<bar>x\<bar>"
    using assms(1) by (smt (verit) zero_less_power_int)
  have lo: "(2::real) powr real_of_int e = 2 powi e"
    by (rule powr_real_of_int') simp_all
  have hi: "(2::real) powr real_of_int (e + 1) = 2 powi (e + 1)"
    by (rule powr_real_of_int') simp_all
  have "\<lfloor>log 2 \<bar>x\<bar>\<rfloor> = e \<longleftrightarrow>
          2 powr real_of_int e \<le> \<bar>x\<bar> \<and> \<bar>x\<bar> < 2 powr real_of_int (e + 1)"
    by (rule floor_log_eq_powr_iff) (use pos in simp_all)
  then have "\<lfloor>log 2 \<bar>x\<bar>\<rfloor> = e"
    using assms(1,2) unfolding lo hi by blast
  then show ?thesis
    using assms(3) by (simp add: ulp_def)
qed

lemma round_float_eq:
  assumes "2 powi e \<le> \<bar>x\<bar>" "\<bar>x\<bar> < 2 powi (e + 1)" "- 1022 \<le> e"
  shows "round_float x = of_int (round_half_even (x / 2 powi (e - 52))) * 2 powi (e - 52)"
proof -
  have "x \<noteq> 0"
    using assms(1) by (smt (verit) zero_less_power_int)
  then show ?thesis
    by (simp add: round_float_def ulp_eq [OF assms])
qed

lemma round_float_5: "round_float 5 = 5"
  by (subst round_float_eq [of 2]) (simp_all add: round_half_even_def)

lemma round_float_half: "round_float (1 / 2) = 1 / 2"
  by (subst round_float_eq [of "- 1"]) (simp_all add: round_half_even_def)

lemma round_float_2000: "round_float (1 / 2000) = 4611686018427388 / 2 ^ 63"
  by (subst round_float_eq [of "- 11"]) (simp_all add: round_half_even_def)

lemma round_float_2000_ms: "round_float (4611686018427388 / 2 ^ 63 * 1000) = 1 / 2"
  by (subst round_float_eq [of "- 1"]) (simp_all add: round_half_even_def)

lemma round_float_200000: "round_float (1 / 200000) = 5902958103587057 / 2 ^ 70"
  by (subst round_float_eq [of "- 18"]) (simp_all add: round_half_even_def)

lemma round_float_200000_ms:
  "round_float (5902958103587057 / 2 ^ 70 * 1000) = 5764607523034235 / 2 ^ 60"
  by (subst round_float_eq [of "- 8"]) (simp_all add: round_half_even_def)

text \<open>
  C3, as stated: without the GPU, \<^verbatim>\<open>estimate_crack_time\<close> would use 10,000 hashes per second
  for bcrypt, the rate of \<^verbatim>\<open>GPUSimulator\<close>'s \<^verbatim>\<open>CPU_ONLY\<close> tier. It uses 1,000: four decimal
  digits take 5 seconds, not half a second.
\<close>

theorem cpu_rate_counterexample:
  "estimate_performance BCRYPT (py ''CPU_ONLY'') = 10000 \<and>
   hashes_per_second BCRYPT False \<noteq> 10000 \<and>
   map_sum id seconds (estimate_crack_time 4 10 BCRYPT False) \<noteq> int_true_div (10 ^ 4 div 2) 10000 \<and>
   map_sum id seconds (estimate_crack_time 4 10 BCRYPT False) = Inr 5"
  by (simp add: estimate_performance_def GPU_TIERS_def py_def code_point_def
      hashes_per_second_def estimate_crack_time_def int_true_div_def float_overflow_def
      round_float_5 round_float_half)

text \<open>
  C3, amended: with \<^verbatim>\<open>use_gpu=false\<close> the rate is 1,000 hashes per second whatever the
  algorithm, so the seconds of the estimate are half the keyspace divided by 1,000 (or the
  overflow of that division); with \<^verbatim>\<open>use_gpu=true\<close> the rate is the algorithm's entry of
  \<^verbatim>\<open>GPU_PERFORMANCE\<close>.
\<close>

theorem cpu_rate_is_shared:
  "hashes_per_second algo False = 1000 \<and>
   hashes_per_second algo True = GPU_PERFORMANCE algo \<and>
   map_sum id seconds (estimate_crack_time n c algo False) = int_true_div (c ^ n div 2) 1000"
  by (simp add: hashes_per_second_def estimate_crack_time_def Let_def split: sum.splits)

theorem cpu_rate_is_shared_witness:
  "hashes_per_second SCRYPT False = 1000 \<and>
   hashes_per_second SCRYPT True = 100000 \<and>
   map_sum id seconds (estimate_crack_time 4 10 SCRYPT False) = Inr 5"
  using cpu_rate_is_shared [of SCRYPT 4 10]
  by (simp add: int_true_div_def float_overflow_def round_float_5)

text \<open>
  C8. The estimate is to be computed for every length and charset size. For a password of
  400 decimal digits the half keyspace is \<open>5 * 10^399\<close>; its quotient by the rate is beyond
  the floats, and the division raises \<open>OverflowError\<close> instead of giving the seconds.
\<close>

theorem estimate_crack_time_overflows:
  "estimate_crack_time 400 10 PBKDF2_SHA256 True = Inl OverflowError"
  by (simp add: estimate_crack_time_def hashes_per_second_def int_true_div_def float_overflow_def)

text \<open>
  What the claim has right: whenever the division gives a float, the estimate holds the
  exact half keyspace and the double nearest to its quotient by the rate; and the example
  of the claim, with one more where the rounding of the product shows in the text.
\<close>

lemma estimate_crack_time_value:
  assumes "\<bar>real_of_int (c ^ n div 2) / real (hashes_per_second algo gpu)\<bar> < float_overflow"
  shows "\<exists>r. estimate_crack_time n c algo gpu = Inr r \<and> hashes_required r = c ^ n div 2 \<and>
             seconds r = round_float (real_of_int (c ^ n div 2) / real (hashes_per_second algo gpu)) \<and>
             human_readable r = format_time (seconds r) \<and> CrackEstimate.algorithm r = algo"
proof -
  have "hashes_per_second algo gpu \<noteq> 0"
    by (cases algo) (simp_all add: hashes_per_second_def)
  with assms show ?thesis
    by (simp add: estimate_crack_time_def int_true_div_def Let_def)
qed

lemma show_nat_examples:
  "show_nat 0 = py ''0''" "show_nat 1 = py ''1''" "show_nat (Suc 0) = py ''1''"
  "show_nat 50 = py ''50''"
  by code_simp+

lemma fmt_fixed_half: "fmt_fixed 2 (1 / 2) = py ''0.50''"
proof -
  have "round_half_even (\<bar>1 / 2\<bar> * 10 ^ 2) = 50"
    by (simp add: round_half_even_def)
  then show ?thesis
    unfolding fmt_fixed_def Let_def
    by (simp add: show_nat_examples [unfolded py_def] py_def)
qed

lemma fmt_fixed_above_half_cent: "fmt_fixed 2 (5764607523034235 / 2 ^ 60) = py ''0.01''"
proof -
  have "round_half_even (\<bar>5764607523034235 / 2 ^ 60\<bar> * 10 ^ 2) = 1"
    by (simp add: round_half_even_def)
  moreover have "show_nat (nat 1 div 10 ^ 2) = py ''0''" "show_nat (nat 1 mod 10 ^ 2) = py ''1''"
    by (simp_all add: show_nat_examples)
  ultimately show ?thesis
    unfolding fmt_fixed_def Let_def
    by (simp add: py_def)
qed

lemma format_time_milliseconds:
  "secs < 1 \<Longrightarrow>
   format_time secs = fmt_fixed 2 (round_float (secs * 1000)) @ py '' milliseconds''"
  by (simp add: format_time_def)

lemma estimate_crack_time_example:
  "estimate_crack_time 4 10 PBKDF2_SHA256 True =
     Inr \<lparr>seconds = 4611686018427388 / 2 ^ 63, human_readable = py ''0.50 milliseconds'',
          hashes_required = 5000, algorithm = PBKDF2_SHA256\<rparr>"
proof -
  have "int_true_div 5000 10000000 = Inr (4611686018427388 / 2 ^ 63)"
    using round_float_2000 by (simp add: int_true_div_def float_overflow_def)
  moreover have "format_time (4611686018427388 / 2 ^ 63) = py ''0.50 milliseconds''"
  proof -
    have "format_time (4611686018427388 / 2 ^ 63) =
            fmt_fixed 2 (round_float (4611686018427388 / 2 ^ 63 * 1000)) @ py '' milliseconds''"
      by (rule format_time_milliseconds) simp
    also have "\<dots> = py ''0.50'' @ py '' milliseconds''"
      by (simp only: round_float_2000_ms fmt_fixed_half)
    finally show ?thesis
      by (simp add: py_def)
  qed
  ultimately show ?thesis
    by (simp add: estimate_crack_time_def hashes_per_second_def)
qed

lemma estimate_crack_time_rounds_product:
  "estimate_crack_time 2 10 PBKDF2_SHA256 True =
     Inr \<lparr>seconds = 5902958103587057 / 2 ^ 70, human_readable = py ''0.01 milliseconds'',
          hashes_required = 50, algorithm = PBKDF2_SHA256\<rparr>"
proof -
  have "int_true_div 50 10000000 = Inr (5902958103587057 / 2 ^ 70)"
    using round_float_200000 by (simp add: int_true_div_def float_overflow_def)
  moreover have "format_time (5902958103587057 / 2 ^ 70) = py ''0.01 milliseconds''"
  proof -
    have "format_time (5902958103587057 / 2 ^ 70) =
            fmt_fixed 2 (round_float (5902958103587057 / 2 ^ 70 * 1000)) @ py '' milliseconds''"
      by (rule format_time_milliseconds) simp
    also have "\<dots> = py ''0.01'' @ py '' milliseconds''"
      by (simp only: round_float_200000_ms fmt_fixed_above_half_cent)
    finally show ?thesis
      by (simp add: py_def)
  qed
  ultimately show ?thesis
    by (simp add: estimate_crack_time_def hashes_per_second_def)
qed

section \<open>Candidate generators\<close>

lemma product_lists_replicate: "product_lists (replicate n cs) = lex_words cs n"
  by (induction n) simp_all

lemma product_repeat_served:
  "0 \<le> n \<Longrightarrow> n \<le> repeat_limit rt \<Longrightarrow> product_repeat rt cs n = Inr (lex_words cs (nat n))"
  by (simp add: product_repeat_def repeat_limit_def product_lists_replicate)

lemma brute_force_lengths_served:
  "list_all (\<lambda>n. 0 \<le> n \<and> n \<le> repeat_limit rt) ns \<Longrightarrow>
   brute_force_lengths rt cs ns = (concat (map (\<lambda>n. lex_words cs (nat n)) ns), None)"
  by (induction ns) (simp_all add: product_repeat_served)

lemma upto_within: "0 \<le> i \<Longrightarrow> j \<le> l \<Longrightarrow> list_all (\<lambda>n. 0 \<le> n \<and> n \<le> l) [i..j]"
  by (simp add: list_all_iff)

lemma brute_force_generator_served:
  "0 \<le> min_length config \<Longrightarrow> max_length config \<le> repeat_limit rt \<Longrightarrow>
   brute_force_generator rt config =
     (concat (map (\<lambda>n. lex_words (charset config) (nat n))
                  [min_length config..max_length config]), None)"
  by (simp add: brute_force_generator_def brute_force_lengths_served upto_within)

lemma set_lex_words: "set (lex_words cs n) = {w. length w = n \<and> set w \<subseteq> set cs}"
proof (induction n)
  case 0
  show ?case by auto
next
  case (Suc n)
  show ?case
  proof (rule set_eqI)
    fix w
    show "w \<in> set (lex_words cs (Suc n)) \<longleftrightarrow> w \<in> {w. length w = Suc n \<and> set w \<subseteq> set cs}"
      using Suc by (cases w) auto
  qed
qed

lemma sorted_charset_before: "sorted_wrt (\<lambda>a b. (a, b) \<in> before cs) cs"
  by (auto simp: sorted_wrt_iff_nth_less before_def)

lemma sorted_block:
  assumes "sorted_wrt (\<lambda>u v. (u, v) \<in> lex r) ws" "\<forall>w \<in> set ws. length w = n"
    and "sorted_wrt (\<lambda>a b. (a, b) \<in> r) xs"
  shows "sorted_wrt (\<lambda>u v. (u, v) \<in> lex r) (concat (map (\<lambda>c. map ((#) c) ws) xs))"
  using assms(3)
proof (induction xs)
  case Nil
  show ?case by simp
next
  case (Cons x xs)
  have "sorted_wrt (\<lambda>u v. (x # u, x # v) \<in> lex r) ws"
    by (rule sorted_wrt_mono_rel [OF _ assms(1)]) simp
  then have "sorted_wrt (\<lambda>u v. (u, v) \<in> lex r) (map ((#) x) ws)"
    by (simp add: sorted_wrt_map)
  moreover have "\<forall>u \<in> set (map ((#) x) ws).
      \<forall>v \<in> set (concat (map (\<lambda>c. map ((#) c) ws) xs)). (u, v) \<in> lex r"
    using Cons.prems assms(2) by auto
  ultimately show ?case
    using Cons by (simp add: sorted_wrt_append)
qed

lemma sorted_lex_words:
  "sorted_wrt (\<lambda>u v. (u, v) \<in> lex (before cs)) (lex_words cs n)"
proof (induction n)
  case 0
  show ?case by simp
next
  case (Suc n)
  then show ?case
    using sorted_block [of "before cs" "lex_words cs n" n cs] sorted_charset_before [of cs]
    by (simp add: set_lex_words)
qed

lemma before_irrefl: "distinct cs \<Longrightarrow> (a, a) \<notin> before cs"
  by (auto simp: before_def nth_eq_iff_index_eq)

lemma lex_irrefl: "(\<And>a. (a, a) \<notin> r) \<Longrightarrow> (w, w) \<notin> lex r"
  by (induction w) auto

lemma distinct_lex_words: "distinct cs \<Longrightarrow> distinct (lex_words cs n)"
proof -
  assume d: "distinct cs"
  have "\<And>w. (w, w) \<notin> lex (before cs)"
    using lex_irrefl before_irrefl [OF d] by metis
  then show ?thesis
    using sorted_lex_words [of cs n]
    by (metis (mono_tags, lifting) distinct_conv_nth sorted_wrt_iff_nth_less nat_neq_iff)
qed

text \<open>
  C5, as stated: the generator would enumerate the strings of every length from
  \<^verbatim>\<open>min_length\<close> to \<^verbatim>\<open>max_length\<close> whenever \<^verbatim>\<open>min_length <= max_length\<close>. The two fields are
  integers that nothing validates. With \<^verbatim>\<open>min_length = -1\<close> and \<^verbatim>\<open>max_length = 1\<close> the first
  length is negative, the product raises \<open>ValueError\<close>, and no string is yielded, not even
  those of length 0 and 1. With both at \<open>2^62\<close> the product raises \<open>OverflowError\<close>, though
  the strings of that length over the empty charset are none and easily enumerated.
\<close>

theorem brute_force_generator_raises:
  "brute_force_generator example_runtime
     ((default_config BRUTE_FORCE (py ''simulated_hash'') ARGON2ID)
        \<lparr>charset := py ''ab'', min_length := - 1, max_length := 1\<rparr>)
   = ([], Some ValueError) \<and>
   brute_force_generator example_runtime
     ((default_config BRUTE_FORCE (py ''simulated_hash'') ARGON2ID)
        \<lparr>charset := [], min_length := 2 ^ 62, max_length := 2 ^ 62\<rparr>)
   = ([], Some OverflowError)"
  by (simp add: default_config_def brute_force_generator_def upto.simps product_repeat_def)

text \<open>
  C5, amended: for every charset and every \<^verbatim>\<open>min_length\<close> and \<^verbatim>\<open>max_length\<close> between 0 and
  the largest \<^verbatim>\<open>repeat\<close> that \<^verbatim>\<open>itertools.product\<close> serves, the generator raises nothing and
  yields, for each length from \<^verbatim>\<open>min_length\<close> to \<^verbatim>\<open>max_length\<close> in increasing order, the
  block \<open>lex_words\<close> of that length. A block holds exactly the strings of its length over
  the charset, and is strictly increasing in the lexicographic order of the charset's own
  order of characters; over a charset without repetition no string occurs twice.
\<close>

theorem brute_force_generator_enumerates:
  assumes "0 \<le> min_length config" and "max_length config \<le> repeat_limit rt"
  shows "brute_force_generator rt config =
           (concat (map (\<lambda>n. lex_words (charset config) (nat n))
                        [min_length config..max_length config]), None) \<and>
         (\<forall>n. set (lex_words (charset config) n) =
                {w. length w = n \<and> set w \<subseteq> set (charset config)}) \<and>
         (\<forall>n. sorted_wrt (\<lambda>u v. (u, v) \<in> lex (before (charset config)))
                (lex_words (charset config) n)) \<and>
         (distinct (charset config) \<longrightarrow> (\<forall>n. distinct (lex_words (charset config) n)))"
  using assms
  by (simp add: brute_force_generator_served set_lex_words sorted_lex_words distinct_lex_words)

text \<open>
  C5, the example of the claim, from the theorem: charset \<^verbatim>\<open>"ab"\<close> with lengths 1 to 2.
\<close>

theorem brute_force_generator_enumerates_witness:
  "0 \<le> min_length ((default_config BRUTE_FORCE (py ''simulated_hash'') ARGON2ID)
          \<lparr>charset := py ''ab'', min_length := 1, max_length := 2\<rparr>) \<and>
   max_length ((default_config BRUTE_FORCE (py ''simulated_hash'') ARGON2ID)
          \<lparr>charset := py ''ab'', min_length := 1, max_length := 2\<rparr>)
     \<le> repeat_limit example_runtime \<and>
   brute_force_generator example_runtime
       ((default_config BRUTE_FORCE (py ''simulated_hash'') ARGON2ID)
          \<lparr>charset := py ''ab'', min_length := 1, max_length := 2\<rparr>)
     = (map py [''a'', ''b'', ''aa'', ''ab'', ''ba'', ''bb''], None)"
  using brute_force_generator_enumerates
    [of "(default_config BRUTE_FORCE (py ''simulated_hash'') ARGON2ID)
          \<lparr>charset := py ''ab'', min_length := 1, max_length := 2\<rparr>" example_runtime]
  by (simp add: default_config_def repeat_limit_def example_runtime_def upto.simps
      eval_nat_numeral py_def)

text \<open>
  C4. Every character of a mask that is not one of the five placeholders is to stand for
  itself, an unrecognized placeholder after \<^verbatim>\<open>?\<close> included. The \<^verbatim>\<open>if\<close>/\<^verbatim>\<open>elif\<close> chain has no
  last \<^verbatim>\<open>else\<close>: for \<^verbatim>\<open>?x\<close> nothing is appended and both characters are skipped. The mask
  \<^verbatim>\<open>"?x"\<close> yields the empty string alone, and \<^verbatim>\<open>"a?xb"\<close> yields \<^verbatim>\<open>"ab"\<close>.
\<close>

theorem mask_generator_drops_unknown_placeholder:
  "mask_generator rt (config\<lparr>mask := Some (py ''?x'')\<rparr>) = ([[]], None) \<and>
   mask_generator rt (config\<lparr>mask := Some (py ''a?xb'')\<rparr>) = ([py ''ab''], None)"
  by (simp add: mask_generator_def placeholder_charset_def py_def code_point_def)

text \<open>
  What the claim has right: the candidates are the Cartesian product of the sets of the
  positions, from left to right; a trailing \<^verbatim>\<open>?\<close> stands for itself; and the mask
  \<^verbatim>\<open>"?u?l?l?d"\<close> yields 175,760 candidates, the strings made of an uppercase letter, two
  lowercase letters and a digit.
\<close>

lemma mask_generator_cartesian:
  "m \<noteq> [] \<Longrightarrow> mask config = Some m \<Longrightarrow>
   mask_generator rt config = (product_lists (parse_mask m), None) \<and>
   set (product_lists (parse_mask m)) = {w. list_all2 (\<lambda>c cs. c \<in> set cs) w (parse_mask m)}"
  by (simp add: mask_generator_def product_lists_set)

lemma parse_mask_trailing: "parse_mask (py ''ab?'') = [py ''a'', py ''b'', py ''?'']"
  by (simp add: py_def code_point_def)

lemma parse_mask_example:
  "parse_mask (py ''?u?l?l?d'') = [ascii_uppercase, ascii_lowercase, ascii_lowercase, digits]"
  by (simp add: placeholder_charset_def py_def code_point_def)

lemma mask_example_candidates:
  "fst (mask_generator rt (config\<lparr>mask := Some (py ''?u?l?l?d'')\<rparr>)) =
     product_lists [ascii_uppercase, ascii_lowercase, ascii_lowercase, digits]"
proof -
  have "py ''?u?l?l?d'' \<noteq> []"
    by (simp add: py_def)
  then show ?thesis
    by (simp add: mask_generator_def parse_mask_example del: product_lists.simps parse_mask.simps)
qed

lemma class_sizes:
  "length ascii_uppercase = 26" "length ascii_lowercase = 26" "length digits = 10"
  by (simp_all add: ascii_uppercase_def ascii_lowercase_def digits_def py_def)

lemma mask_example_count:
  "length (fst (mask_generator rt (config\<lparr>mask := Some (py ''?u?l?l?d'')\<rparr>))) = 175760"
  by (simp only: mask_example_candidates length_product_lists list.map foldr.simps
      comp_apply class_sizes) simp

lemma mask_example_shape:
  "w \<in> set (fst (mask_generator rt (config\<lparr>mask := Some (py ''?u?l?l?d'')\<rparr>))) \<longleftrightarrow>
     (\<exists>a b c d. w = [a, b, c, d] \<and> a \<in> set ascii_uppercase \<and> b \<in> set ascii_lowercase \<and>
        c \<in> set ascii_lowercase \<and> d \<in> set digits)"
  by (simp only: mask_example_candidates product_lists_set mem_Collect_eq
      list_all2_Cons2 list_all2_Nil2) blast

lemma brute_force_empty_range:
  "max_length config < min_length config \<Longrightarrow> brute_force_generator rt config = ([], None)"
  by (simp add: brute_force_generator_def)

lemma lex_words_empty_charset: "lex_words [] n = (if n = 0 then [[]] else [])"
  by (cases n) simp_all

lemma brute_force_empty_charset:
  assumes "charset config = []" "0 \<le> min_length config" "max_length config \<le> repeat_limit rt"
  shows "brute_force_generator rt config =
     (if min_length config = 0 \<and> 0 \<le> max_length config then [[]] else [], None)"
proof (cases "min_length config \<le> max_length config")
  case False
  then show ?thesis using assms by (simp add: brute_force_generator_def)
next
  case True
  have gen: "brute_force_generator rt config =
      (concat (map (\<lambda>n. lex_words [] (nat n)) [min_length config..max_length config]), None)"
    using brute_force_generator_served [OF assms(2,3)] assms(1) by simp
  show ?thesis
  proof (cases "min_length config = 0")
    case z: True
    have "[min_length config..max_length config] = 0 # [1..max_length config]"
      using True z by (simp add: upto_rec1)
    moreover have "concat (map (\<lambda>n. lex_words [] (nat n)) [1..max_length config]) = []"
      by (auto simp: lex_words_empty_charset)
    ultimately show ?thesis using gen z True by simp
  next
    case nz: False
    have "concat (map (\<lambda>n. lex_words [] (nat n)) [min_length config..max_length config]) = []"
      using nz assms(2) by (auto simp: lex_words_empty_charset)
    then show ?thesis using gen nz by simp
  qed
qed

text \<open>
  C6, as stated: candidate generation would fail for \<^verbatim>\<open>min_length > max_length\<close>, for an
  empty charset, and for a mask whose derived pattern is empty. None of the three fails:
  the first two configurations yield no candidate, the third yields the empty string.
\<close>

theorem degenerate_configurations_counterexample:
  "select_candidates example_runtime
     ((default_config BRUTE_FORCE (py ''simulated_hash'') ARGON2ID)
        \<lparr>min_length := 2, max_length := 1\<rparr>) = ([], None) \<and>
   select_candidates example_runtime
     ((default_config BRUTE_FORCE (py ''simulated_hash'') ARGON2ID)
        \<lparr>charset := []\<rparr>) = ([], None) \<and>
   select_candidates example_runtime
     ((default_config MASK (py ''simulated_hash'') ARGON2ID)
        \<lparr>mask := Some (py ''?x'')\<rparr>) = ([[]], None)"
  by (simp add: select_candidates_def default_config_def brute_force_generator_def
      mask_generator_def placeholder_charset_def upto.simps eval_nat_numeral
      product_repeat_def example_runtime_def py_def code_point_def)

text \<open>
  C6, amended: in none of these configurations does candidate generation fail. Mask mode
  with a mask that is not empty raises nothing, whatever pattern the mask derives; with no
  mask, or an empty one, mask mode is brute-force mode. Brute force with
  \<^verbatim>\<open>min_length > max_length\<close> yields no candidate and raises nothing. Brute force with an
  empty charset, a \<^verbatim>\<open>min_length\<close> that is not negative and a \<^verbatim>\<open>max_length\<close> that is a
  \<^verbatim>\<open>repeat\<close> \<^verbatim>\<open>itertools.product\<close> serves raises nothing, and yields the empty string
  alone when \<^verbatim>\<open>min_length\<close> is 0 and \<^verbatim>\<open>max_length\<close> is not negative, and no candidate
  otherwise.
\<close>

theorem degenerate_configurations_do_not_fail:
  "(mask config = Some m \<and> m \<noteq> [] \<longrightarrow> snd (mask_generator rt config) = None) \<and>
   (mask config = None \<or> mask config = Some [] \<longrightarrow>
      mask_generator rt config = brute_force_generator rt config) \<and>
   (max_length config < min_length config \<longrightarrow> brute_force_generator rt config = ([], None)) \<and>
   (charset config = [] \<and> 0 \<le> min_length config \<and> max_length config \<le> repeat_limit rt \<longrightarrow>
      brute_force_generator rt config =
        (if min_length config = 0 \<and> 0 \<le> max_length config then [[]] else [], None))"
  using brute_force_empty_range [of config rt] brute_force_empty_charset [of config rt]
  by (auto simp add: mask_generator_def)

text \<open>
  C6, instances of the theorem, one for each part: the mask \<^verbatim>\<open>"?x"\<close>, whose derived pattern
  is empty; mask mode without a mask, with an empty charset and lengths 0 to 3; and lengths
  4 to 3.
\<close>

theorem degenerate_configurations_do_not_fail_witness:
  "snd (mask_generator example_runtime
      ((default_config MASK (py ''simulated_hash'') ARGON2ID)
         \<lparr>mask := Some (py ''?x'')\<rparr>)) = None \<and>
   mask_generator example_runtime
      ((default_config MASK (py ''simulated_hash'') ARGON2ID)
         \<lparr>charset := [], min_length := 0, max_length := 3\<rparr>) = ([[]], None) \<and>
   brute_force_generator example_runtime
      ((default_config MASK (py ''simulated_hash'') ARGON2ID)
         \<lparr>charset := [], min_length := 4, max_length := 3\<rparr>) = ([], None)"
  using degenerate_configurations_do_not_fail
      [of "(default_config MASK (py ''simulated_hash'') ARGON2ID)
            \<lparr>mask := Some (py ''?x'')\<rparr>" "py ''?x''" example_runtime]
    degenerate_configurations_do_not_fail
      [of "(default_config MASK (py ''simulated_hash'') ARGON2ID)
            \<lparr>charset := [], min_length := 0, max_length := 3\<rparr>" "[]" example_runtime]
    degenerate_configurations_do_not_fail
      [of "(default_config MASK (py ''simulated_hash'') ARGON2ID)
            \<lparr>charset := [], min_length := 4, max_length := 3\<rparr>" "[]" example_runtime]
  by (simp add: default_config_def repeat_limit_def example_runtime_def py_def)

section \<open>The attack simulator\<close>

lemma throttle_returns: "limit \<noteq> 0 \<Longrightarrow> \<exists>b. throttle n limit = Inr b"
  by (auto simp add: throttle_def)

lemma attack_loop_outcome:
  assumes "limit \<noteq> 0"
  shows "fst (attack_loop stopping limit cap target None cs n d) =
     (if (if stopping then 1 else max 1 (cap - n))
           \<le> int (length (takeWhile (\<lambda>c. c \<noteq> target) cs))
        then Inr (n + (if stopping then 1 else max 1 (cap - n)), False,
                  cap \<le> n + (if stopping then 1 else max 1 (cap - n)))
      else if target \<in> set cs
        then Inr (n + int (length (takeWhile (\<lambda>c. c \<noteq> target) cs)), True, False)
      else Inr (n + int (length cs), False, False))"
proof (induction cs arbitrary: n d)
  case Nil
  show ?case by simp
next
  case (Cons c cs)
  obtain b where b: "throttle n limit = Inr b"
    using throttle_returns [OF assms] by blast
  show ?case
  proof (cases "c = target")
    case True
    then show ?thesis using b by simp
  next
    case False
    show ?thesis
    proof (cases "cap \<le> n + 1")
      case True
      then show ?thesis using b False by (simp add: max_def)
    next
      case stay: False
      show ?thesis
      proof (cases stopping)
        case True
        then show ?thesis using b False stay by simp
      next
        case running: False
        have "fst (attack_loop stopping limit cap target None (c # cs) n d) =
              fst (attack_loop stopping limit cap target None cs (n + 1) (Suc d))"
          using b False stay running by simp
        also note Cons.IH [of "n + 1" "Suc d"]
        finally show ?thesis using False stay running by (auto simp: max_def)
      qed
    qed
  qed
qed

lemma attack_loop_stopping:
  "snd (attack_loop True limit cap target pending cs n d) \<le> Suc d"
  by (cases cs) (auto split: option.splits sum.splits)

lemma attack_loop_stopping_attempts:
  "fst (attack_loop True limit cap target pending cs n d) = Inr (m, f, l) \<Longrightarrow> m \<le> n + 1"
  by (cases cs) (auto split: option.splits sum.splits if_splits)

lemma simulate_attack_self: "fst (simulate_attack rt self config target) = self"
  by (simp add: simulate_attack_def)

lemma run_calls_keeps_stop:
  "stop_requested self \<Longrightarrow> stop_requested (run_calls rt self calls)"
  by (induction rt self calls rule: run_calls.induct) (simp_all add: stop_def simulate_attack_self)

lemma run_attack_stopping:
  "stop_requested self \<Longrightarrow> snd (run_attack rt self config target) \<le> 1"
  using attack_loop_stopping [of _ _ _ _ _ 0 0]
  by (simp add: run_attack_def split: prod.splits)

lemma run_attack_stopping_attempts:
  "stop_requested self \<Longrightarrow> fst (run_attack rt self config target) = Inr (m, f, l) \<Longrightarrow> m \<le> 1"
  using attack_loop_stopping_attempts [of _ _ _ _ _ 0 0 m f l]
  by (auto simp add: run_attack_def split: prod.splits)

lemma run_attack_outcome:
  assumes "select_candidates rt config = (cs, None)"
    and "speed_limit config \<noteq> 0"
    and "1 \<le> max_attempts config"
  shows "fst (run_attack rt self config target) =
     (if (if stop_requested self then 1 else max_attempts config)
           \<le> int (length (takeWhile (\<lambda>c. c \<noteq> target) cs))
        then Inr (if stop_requested self then 1 else max_attempts config, False,
                  max_attempts config \<le> (if stop_requested self then 1 else max_attempts config))
      else if target \<in> set cs
        then Inr (int (length (takeWhile (\<lambda>c. c \<noteq> target) cs)), True, False)
      else Inr (int (length cs), False, False))"
  using assms
    attack_loop_outcome [of "speed_limit config" "stop_requested self" "max_attempts config"
      target cs 0 0]
  by (simp add: run_attack_def max_def)

text \<open>
  C2, as stated: for every configuration and target the simulation would terminate in one
  of its final states, \<^verbatim>\<open>stopped_by_limit=true\<close> once \<^verbatim>\<open>attempts >= max_attempts\<close>. Three
  calls on a new simulator, brute force over \<^verbatim>\<open>"az"\<close>:

  \<^item> with \<^verbatim>\<open>speed_limit = 0\<close>, lengths 1 to 2 and the target \<^verbatim>\<open>"zz"\<close> of the claim's
    example, the rate limit divides by zero at the second candidate, and the call raises
    \<open>ZeroDivisionError\<close> instead of returning a result;

  \<^item> with lengths \<open>-1\<close> to 2 and the same target, the generator raises \<open>ValueError\<close> at its
    first length, and so does the call;

  \<^item> with \<^verbatim>\<open>max_attempts = 0\<close>, lengths 1 to 2 and the target \<^verbatim>\<open>"a"\<close>, the result has
    \<^verbatim>\<open>attempts = 0\<close>, which is \<^verbatim>\<open>>= max_attempts\<close>, and \<^verbatim>\<open>stopped_by_limit=false\<close>.
\<close>

theorem simulate_attack_counterexample:
  "simulate_attack example_runtime new_simulator
     ((default_config BRUTE_FORCE (py ''simulated_hash'') ARGON2ID)
        \<lparr>speed_limit := 0, charset := py ''az'', min_length := 1, max_length := 2\<rparr>)
     (py ''zz'')
   = (new_simulator, Inl ZeroDivisionError) \<and>
   simulate_attack example_runtime new_simulator
     ((default_config BRUTE_FORCE (py ''simulated_hash'') ARGON2ID)
        \<lparr>charset := py ''az'', min_length := - 1, max_length := 2\<rparr>)
     (py ''zz'')
   = (new_simulator, Inl ValueError) \<and>
   simulate_attack example_runtime new_simulator
     ((default_config BRUTE_FORCE (py ''simulated_hash'') ARGON2ID)
        \<lparr>max_attempts := 0, charset := py ''az'', min_length := 1, max_length := 2\<rparr>)
     (py ''a'')
   = (new_simulator,
      Inr \<lparr>success = True, password_found = Some (py ''a''), attempts = 0, mode = BRUTE_FORCE,
           stopped_by_limit = False\<rparr>)"
  by (simp add: simulate_attack_def run_attack_def select_candidates_def default_config_def
      brute_force_generator_def upto.simps eval_nat_numeral product_repeat_def
      example_runtime_def new_simulator_def throttle_def py_def code_point_def)

text \<open>
  C2, amended: for every configuration whose generator raises nothing, whose \<^verbatim>\<open>speed_limit\<close>
  is not 0 and whose \<^verbatim>\<open>max_attempts\<close> is at least 1, and for every target,
  \<^verbatim>\<open>simulate_attack\<close> returns a result and leaves the simulator as it was. Let \<open>k\<close> be the
  number of candidates generated strictly before the first one equal to the target (all
  of them when there is none), and let the loop leave early after \<^verbatim>\<open>max_attempts\<close>
  attempts, or after 1 when the stop flag is set.

  \<^item> If \<open>k\<close> reaches that number of attempts, the result has \<^verbatim>\<open>success=false\<close> and that
    number of attempts, and \<^verbatim>\<open>stopped_by_limit\<close> tells whether \<^verbatim>\<open>attempts >= max_attempts\<close>
    (LimitReached, or else Cancelled).

  \<^item> Otherwise, if the target is among the candidates, the result has \<^verbatim>\<open>success=true\<close>,
    \<^verbatim>\<open>password_found\<close> the target, \<^verbatim>\<open>attempts = k\<close> and \<^verbatim>\<open>stopped_by_limit=false\<close> (Found).

  \<^item> Otherwise the generator is exhausted: \<^verbatim>\<open>success=false\<close>, \<^verbatim>\<open>attempts\<close> the number of
    candidates, \<^verbatim>\<open>stopped_by_limit=false\<close> (Exhausted).
\<close>

theorem simulate_attack_outcome:
  assumes "select_candidates rt config = (cs, None)"
    and "speed_limit config \<noteq> 0"
    and "1 \<le> max_attempts config"
  shows "simulate_attack rt self config target =
     (self, Inr
       (if (if stop_requested self then 1 else max_attempts config)
             \<le> int (length (takeWhile (\<lambda>c. c \<noteq> target) cs)) then
          \<lparr>success = False, password_found = None,
           attempts = (if stop_requested self then 1 else max_attempts config),
           mode = AttackConfig.mode config,
           stopped_by_limit =
             (max_attempts config \<le> (if stop_requested self then 1 else max_attempts config))\<rparr>
        else if target \<in> set cs then
          \<lparr>success = True, password_found = Some target,
           attempts = int (length (takeWhile (\<lambda>c. c \<noteq> target) cs)),
           mode = AttackConfig.mode config, stopped_by_limit = False\<rparr>
        else
          \<lparr>success = False, password_found = None, attempts = int (length cs),
           mode = AttackConfig.mode config, stopped_by_limit = False\<rparr>))"
  using run_attack_outcome [OF assms, of self target]
  by (simp add: simulate_attack_def)

text \<open>
  C2, the example of the claim, from the theorem: target \<^verbatim>\<open>"zz"\<close>, brute force over \<^verbatim>\<open>"az"\<close>
  with lengths 1 to 2 and the other fields at their defaults. Five candidates come before
  \<^verbatim>\<open>"zz"\<close>.
\<close>

theorem simulate_attack_outcome_witness:
  "select_candidates example_runtime
     ((default_config BRUTE_FORCE (py ''simulated_hash'') ARGON2ID)
        \<lparr>charset := py ''az'', min_length := 1, max_length := 2\<rparr>)
     = (map py [''a'', ''z'', ''aa'', ''az'', ''za'', ''zz''], None) \<and>
   speed_limit ((default_config BRUTE_FORCE (py ''simulated_hash'') ARGON2ID)
        \<lparr>charset := py ''az'', min_length := 1, max_length := 2\<rparr>) \<noteq> 0 \<and>
   1 \<le> max_attempts ((default_config BRUTE_FORCE (py ''simulated_hash'') ARGON2ID)
        \<lparr>charset := py ''az'', min_length := 1, max_length := 2\<rparr>) \<and>
   simulate_attack example_runtime new_simulator
     ((default_config BRUTE_FORCE (py ''simulated_hash'') ARGON2ID)
        \<lparr>charset := py ''az'', min_length := 1, max_length := 2\<rparr>) (py ''zz'')
   = (new_simulator,
      Inr \<lparr>success = True, password_found = Some (py ''zz''), attempts = 5, mode = BRUTE_FORCE,
           stopped_by_limit = False\<rparr>)"
proof -
  let ?config = "(default_config BRUTE_FORCE (py ''simulated_hash'') ARGON2ID)
        \<lparr>charset := py ''az'', min_length := 1, max_length := 2\<rparr>"
  have cands: "select_candidates example_runtime ?config
      = (map py [''a'', ''z'', ''aa'', ''az'', ''za'', ''zz''], None)"
    by (simp add: select_candidates_def default_config_def brute_force_generator_def
        upto.simps eval_nat_numeral product_repeat_def example_runtime_def py_def)
  have limit: "speed_limit ?config \<noteq> 0"
    by (simp add: default_config_def)
  have cap: "1 \<le> max_attempts ?config"
    by (simp add: default_config_def)
  show ?thesis
    using simulate_attack_outcome [OF cands limit cap, of new_simulator "py ''zz''"]
      cands limit cap
    by (simp add: default_config_def new_simulator_def py_def code_point_def)
qed

text \<open>
  With those hypotheses the flag is set exactly when the attempts have reached the limit.
\<close>

lemma stopped_by_limit_iff:
  assumes "select_candidates rt config = (cs, None)"
    and "speed_limit config \<noteq> 0"
    and "1 \<le> max_attempts config"
    and "fst (run_attack rt self config target) = Inr (n, found, limited)"
  shows "limited \<longleftrightarrow> max_attempts config \<le> n"
proof -
  have "target \<notin> set cs \<Longrightarrow> length (takeWhile (\<lambda>c. c \<noteq> target) cs) = length cs"
    by (induction cs) auto
  then show ?thesis
    using run_attack_outcome [OF assms(1-3), of self target] assms(3,4)
    by (auto split: if_splits)
qed

text \<open>
  C10. \<^verbatim>\<open>stop()\<close> sets the stop flag, and no later call on the simulator clears it, whatever
  the calls are; so a \<^verbatim>\<open>simulate_attack\<close> made after \<^verbatim>\<open>stop()\<close> draws at most one candidate
  from its generator, and a result it returns has made at most one attempt.
\<close>

theorem stop_flag_is_never_cleared:
  "stop_requested (stop self) \<and>
   stop_requested (run_calls rt (stop self) calls) \<and>
   candidates_examined rt (run_calls rt (stop self) calls) config target \<le> 1 \<and>
   (case snd (simulate_attack rt (run_calls rt (stop self) calls) config target) of
      Inl e \<Rightarrow> True
    | Inr r \<Rightarrow> attempts r \<le> 1)"
proof -
  have s: "stop_requested (stop self)"
    by (simp add: stop_def)
  then have r: "stop_requested (run_calls rt (stop self) calls)"
    by (rule run_calls_keeps_stop)
  have "candidates_examined rt (run_calls rt (stop self) calls) config target \<le> 1"
    using run_attack_stopping [OF r] by (simp add: candidates_examined_def)
  moreover have "case snd (simulate_attack rt (run_calls rt (stop self) calls) config target) of
      Inl e \<Rightarrow> True | Inr r \<Rightarrow> attempts r \<le> 1"
    using run_attack_stopping_attempts [OF r]
    by (auto simp: simulate_attack_def split: sum.splits)
  ultimately show ?thesis using s r by simp
qed

text \<open>
  C10, an instance: after \<^verbatim>\<open>stop()\<close> and one simulation, a dictionary attack on \<^verbatim>\<open>"qwerty"\<close>,
  the fourth word of the default list, looks at the first word only and does not find it.
\<close>

theorem stop_flag_is_never_cleared_witness:
  "stop_requested (run_calls example_runtime (stop new_simulator)
      [Simulate (default_config DICTIONARY (py ''simulated_hash'') ARGON2ID) (py ''qwerty'')]) \<and>
   candidates_examined example_runtime (run_calls example_runtime (stop new_simulator)
      [Simulate (default_config DICTIONARY (py ''simulated_hash'') ARGON2ID) (py ''qwerty'')])
      (default_config DICTIONARY (py ''simulated_hash'') ARGON2ID) (py ''qwerty'') = 1 \<and>
   snd (simulate_attack example_runtime (run_calls example_runtime (stop new_simulator)
      [Simulate (default_config DICTIONARY (py ''simulated_hash'') ARGON2ID) (py ''qwerty'')])
      (default_config DICTIONARY (py ''simulated_hash'') ARGON2ID) (py ''qwerty'')) =
     Inr \<lparr>success = False, password_found = None, attempts = 1, mode = DICTIONARY,
          stopped_by_limit = False\<rparr>"
  using stop_flag_is_never_cleared [of new_simulator example_runtime
      "[Simulate (default_config DICTIONARY (py ''simulated_hash'') ARGON2ID) (py ''qwerty'')]"
      "default_config DICTIONARY (py ''simulated_hash'') ARGON2ID" "py ''qwerty''"]
  by code_simp

section \<open>The password analyzer\<close>

lemma fold_deduct:
  "fold deduct ps s =
     s - 25 * int (length (filter (\<lambda>p. severity p = (py ''high'')) ps))
       - 15 * int (length (filter (\<lambda>p. severity p = (py ''medium'')) ps))
       - 5 * int (length (filter (\<lambda>p. severity p = (py ''low'')) ps))"
proof (induction ps arbitrary: s)
  case Nil
  show ?case by simp
next
  case (Cons p ps)
  show ?case
    by (simp add: Cons.IH) (simp add: deduct_def py_def)
qed

lemma length_py: "length (py s) = length s"
  by (simp add: py_def)

lemma py_eq_Nil: "py s = [] \<longleftrightarrow> s = []"
  by (simp add: py_def)

lemma severity_names:
  "py ''high'' \<noteq> py ''medium''" "py ''high'' \<noteq> py ''low''"
  "py ''medium'' \<noteq> py ''high''" "py ''medium'' \<noteq> py ''low''"
  "py ''low'' \<noteq> py ''high''" "py ''low'' \<noteq> py ''medium''"
  by (simp_all add: py_def)

lemma charset_size_pos: "1 \<le> calculate_charset_size p"
  by (simp add: calculate_charset_size_def Let_def)

lemma charset_size_empty: "calculate_charset_size [] = 1"
  by (simp add: calculate_charset_size_def)

lemma charset_size_examples:
  "calculate_charset_size (py '' '') = 1" "calculate_charset_size (py ''  '') = 1"
  "calculate_charset_size (py ''a'') = 26" "calculate_charset_size (py ''ab'') = 26"
  "calculate_charset_size (py ''password'') = 26"
  by (simp_all add: calculate_charset_size_def ascii_lowercase_def ascii_uppercase_def
      digits_def punctuation_def py_def code_point_def)

lemma entropy_bits_value:
  "entropy_bits p =
     Inr (if p = [] then 0 else log 2 (of_int (calculate_charset_size p ^ length p)))"
proof -
  have "0 < calculate_charset_size p"
    using charset_size_pos [of p] by simp
  then have "\<not> calculate_charset_size p ^ length p \<le> 0"
    by (simp add: not_le)
  then show ?thesis
    using \<open>0 < calculate_charset_size p\<close>
    by (simp add: entropy_bits_def calculate_entropy_def del: of_int_power)
qed

lemma entropy_bits_nonneg: "entropy_bits p = Inr e \<Longrightarrow> 0 \<le> e"
proof -
  assume e: "entropy_bits p = Inr e"
  have "1 \<le> calculate_charset_size p ^ length p"
    using charset_size_pos [of p] by (rule one_le_power)
  then have "(1::real) \<le> of_int (calculate_charset_size p ^ length p)"
    by linarith
  then have "0 \<le> log 2 (of_int (calculate_charset_size p ^ length p))"
    by simp
  then show ?thesis
    using e by (simp add: entropy_bits_value split: if_splits)
qed

lemma calculate_score_range:
  "0 \<le> calculate_score password e patterns \<and> calculate_score password e patterns \<le> 100"
  by (simp add: calculate_score_def Let_def)

text \<open>
  C7. For every password and every list of patterns found in it, the score of the analysis
  is \<open>min 100 \<lfloor>entropy_bits / 128 * 100\<rfloor>\<close>, less 25 for each pattern of high severity, 15
  for each of medium and 5 for each of low severity, plus 10 from 16 characters on and
  otherwise plus 5 from 12 characters on, clamped to the range from 0 to 100; so it lies
  between 0 and 100. The entropy is the one \<^verbatim>\<open>analyze\<close> computes for the password; it is
  never negative, so that the truncation of \<^verbatim>\<open>int()\<close> is the floor.
\<close>

theorem score_formula:
  "\<exists>e. entropy_bits password = Inr e \<and>
        calculate_score password e patterns =
          max 0 (min 100
            (min 100 \<lfloor>e / 128 * 100\<rfloor>
               - 25 * int (length (filter (\<lambda>p. severity p = (py ''high'')) patterns))
               - 15 * int (length (filter (\<lambda>p. severity p = (py ''medium'')) patterns))
               - 5 * int (length (filter (\<lambda>p. severity p = (py ''low'')) patterns))
               + (if 16 \<le> length password then 10 else if 12 \<le> length password then 5 else 0))) \<and>
        0 \<le> calculate_score password e patterns \<and>
        calculate_score password e patterns \<le> 100"
proof -
  obtain e where e: "entropy_bits password = Inr e"
    by (simp add: entropy_bits_value)
  then have "0 \<le> e"
    by (rule entropy_bits_nonneg)
  then have "py_int (e / 128 * 100) = \<lfloor>e / 128 * 100\<rfloor>"
    by (simp add: py_int_def)
  then have "calculate_score password e patterns =
          max 0 (min 100
            (min 100 \<lfloor>e / 128 * 100\<rfloor>
               - 25 * int (length (filter (\<lambda>p. severity p = (py ''high'')) patterns))
               - 15 * int (length (filter (\<lambda>p. severity p = (py ''medium'')) patterns))
               - 5 * int (length (filter (\<lambda>p. severity p = (py ''low'')) patterns))
               + (if 16 \<le> length password then 10 else if 12 \<le> length password then 5 else 0)))"
    by (simp add: calculate_score_def fold_deduct Let_def)
  then show ?thesis
    using e calculate_score_range [of password e patterns] by blast
qed

lemma log_26_8: "3712 / 100 \<le> log 2 (26 ^ 8)" "log 2 (26 ^ 8) < (38::real)"
proof -
  have "((2::real) powr (3712 / 100)) ^ 25 = 2 powr 928"
    by (simp add: powr_power)
  also have "\<dots> = 2 ^ 928"
    by (simp add: powr_realpow [symmetric])
  also have "\<dots> \<le> ((26::real) ^ 8) ^ 25"
    by simp
  finally have "((2::real) powr (3712 / 100)) ^ 25 \<le> ((26::real) ^ 8) ^ 25" .
  then have "(2::real) powr (3712 / 100) \<le> 26 ^ 8"
    by (subst (asm) power_mono_iff) simp_all
  moreover have "3712 / 100 \<le> log 2 (26 ^ 8) \<longleftrightarrow> (2::real) powr (3712 / 100) \<le> 26 ^ 8"
    by (rule le_log_iff) simp_all
  ultimately show "3712 / 100 \<le> log 2 (26 ^ 8)"
    by blast
  have "(26::real) ^ 8 < 2 ^ 38"
    by simp
  then have "(26::real) ^ 8 < 2 powr 38"
    by (simp only: powr_numeral zero_less_numeral)
  moreover have "log 2 (26 ^ 8) < 38 \<longleftrightarrow> (26::real) ^ 8 < 2 powr 38"
    by (rule log_less_iff) simp_all
  ultimately show "log 2 (26 ^ 8) < (38::real)"
    by blast
qed

lemma floor_entropy_password: "\<lfloor>log 2 (26 ^ 8) / 128 * 100\<rfloor> = (29::int)"
  using log_26_8 by (simp add: floor_eq_iff)

lemma floor_entropy_password_numeral: "\<lfloor>25 * log 2 208827064576 / 32\<rfloor> = (29::int)"
  using floor_entropy_password by simp

text \<open>
  C7, an instance: \<^verbatim>\<open>"password"\<close> with the one pattern the analyzer finds in it, of high
  severity. The entropy is \<open>log 2 (26 ^ 8)\<close>, a little under 37.61 bits, which gives 29;
  the pattern takes 25 and the length adds nothing: the score is 4.
\<close>

theorem score_formula_witness:
  "entropy_bits (py ''password'') = Inr (log 2 (26 ^ 8)) \<and>
   calculate_score (py ''password'') (log 2 (26 ^ 8))
     [\<lparr>pattern_type = (py ''Common Password''), description = (py ''This is a commonly used password''),
       severity = (py ''high''), position = (0, 8)\<rparr>] = 4"
proof -
  have e: "entropy_bits (py ''password'') = Inr (log 2 (26 ^ 8))"
    by (simp add: entropy_bits_value charset_size_examples length_py py_eq_Nil)
  show ?thesis
    using score_formula [of "(py ''password'')"
        "[\<lparr>pattern_type = (py ''Common Password''), description = (py ''This is a commonly used password''),
           severity = (py ''high''), position = (0, 8)\<rparr>]"]
    by (simp add: e floor_entropy_password_numeral severity_names length_py)
qed

text \<open>
  C9, as stated: of two passwords with the same charset size, the longer would have the
  greater entropy. One space and two spaces both have charset size 1, and both have
  entropy 0.
\<close>

theorem entropy_of_spaces:
  "calculate_charset_size (py '' '') = calculate_charset_size (py ''  '') \<and>
   length (py '' '') < length (py ''  '') \<and>
   entropy_bits (py '' '') = Inr 0 \<and> entropy_bits (py ''  '') = Inr 0"
  by (simp add: entropy_bits_value charset_size_examples length_py py_eq_Nil)

text \<open>
  C9, amended: of two passwords with the same charset size, if that size is at least 2,
  the longer has the strictly greater entropy. (The size is 1 for a password of spaces
  only, or of characters of no class; then the entropy is 0 at every length.)
\<close>

theorem entropy_strictly_increasing:
  assumes "calculate_charset_size p = calculate_charset_size q"
    and "2 \<le> calculate_charset_size p"
    and "length p < length q"
  shows "\<exists>e1 e2. entropy_bits p = Inr e1 \<and> entropy_bits q = Inr e2 \<and> e1 < e2"
proof -
  define c where "c = calculate_charset_size p"
  have p: "p \<noteq> []"
    using assms(2) charset_size_empty by auto
  have q: "q \<noteq> []"
    using assms(3) by auto
  have "c ^ length p < c ^ length q"
    using assms(2,3) unfolding c_def by (simp add: power_strict_increasing)
  moreover have "0 < c ^ length p"
    using assms(2) unfolding c_def by simp
  ultimately have "log 2 (of_int (c ^ length p)) < log 2 (of_int (c ^ length q))"
    by (simp del: of_int_power)
  then show ?thesis
    using p q assms(1) by (simp add: entropy_bits_value c_def del: of_int_power)
qed

text \<open>C9, an instance of the theorem: \<^verbatim>\<open>"a"\<close> and \<^verbatim>\<open>"ab"\<close>, both of charset size 26.\<close>

theorem entropy_strictly_increasing_witness:
  "calculate_charset_size (py ''a'') = calculate_charset_size (py ''ab'') \<and>
   2 \<le> calculate_charset_size (py ''a'') \<and>
   length (py ''a'') < length (py ''ab'') \<and>
   (\<exists>e1 e2. entropy_bits (py ''a'') = Inr e1 \<and> entropy_bits (py ''ab'') = Inr e2 \<and> e1 < e2)"
  using entropy_strictly_increasing [of "(py ''a'')" "(py ''ab'')"]
  by (simp add: charset_size_examples length_py)

end
